theory Spec2Isabelle
  imports Complex_Main
begin

section \<open>Numbers of the program\<close>

text \<open>
  Every number that \<^verbatim>\<open>functions.py\<close> computes with is a double held by pandas or numpy.
  The model keeps the four kinds of value that the IEEE operations distinguish: a finite
  number, the two infinities, and NaN (which pandas also reads as "missing"). Finite
  numbers are exact reals: rounding, overflow and underflow are left out, and there is one
  zero, read as \<open>+0\<close> where a sign of zero decides a result.
\<close>

datatype fl = Fin real | PInf | NInf | NaN

datatype pyerror = ZeroDivisionError | ValueError | OverflowError | TypeError

definition signed_inf :: "real \<Rightarrow> fl" where
  "signed_inf s = (if s = 0 then NaN else if 0 < s then PInf else NInf)"

fun fl_neg :: "fl \<Rightarrow> fl" where
  "fl_neg (Fin a) = Fin (- a)"
| "fl_neg PInf = NInf"
| "fl_neg NInf = PInf"
| "fl_neg NaN = NaN"

fun fl_add :: "fl \<Rightarrow> fl \<Rightarrow> fl" where
  "fl_add (Fin a) (Fin b) = Fin (a + b)"
| "fl_add (Fin a) PInf = PInf"
| "fl_add (Fin a) NInf = NInf"
| "fl_add PInf (Fin b) = PInf"
| "fl_add PInf PInf = PInf"
| "fl_add PInf NInf = NaN"
| "fl_add NInf (Fin b) = NInf"
| "fl_add NInf PInf = NaN"
| "fl_add NInf NInf = NInf"
| "fl_add NaN y = NaN"
| "fl_add x NaN = NaN"

definition fl_sub :: "fl \<Rightarrow> fl \<Rightarrow> fl" where
  "fl_sub x y = fl_add x (fl_neg y)"

fun fl_mul :: "fl \<Rightarrow> fl \<Rightarrow> fl" where
  "fl_mul (Fin a) (Fin b) = Fin (a * b)"
| "fl_mul (Fin a) PInf = signed_inf a"
| "fl_mul (Fin a) NInf = signed_inf (- a)"
| "fl_mul PInf (Fin b) = signed_inf b"
| "fl_mul PInf PInf = PInf"
| "fl_mul PInf NInf = NInf"
| "fl_mul NInf (Fin b) = signed_inf (- b)"
| "fl_mul NInf PInf = NInf"
| "fl_mul NInf NInf = PInf"
| "fl_mul NaN y = NaN"
| "fl_mul x NaN = NaN"

text \<open>
  Division of doubles never raises: a finite number over zero is an infinity with the
  sign of the numerator, and zero over zero is NaN.
\<close>

fun fl_div :: "fl \<Rightarrow> fl \<Rightarrow> fl" where
  "fl_div (Fin a) (Fin b) = (if b = 0 then signed_inf a else Fin (a / b))"
| "fl_div (Fin a) PInf = Fin 0"
| "fl_div (Fin a) NInf = Fin 0"
| "fl_div PInf (Fin b) = (if 0 \<le> b then PInf else NInf)"
| "fl_div NInf (Fin b) = (if 0 \<le> b then NInf else PInf)"
| "fl_div PInf PInf = NaN"
| "fl_div PInf NInf = NaN"
| "fl_div NInf PInf = NaN"
| "fl_div NInf NInf = NaN"
| "fl_div NaN y = NaN"
| "fl_div x NaN = NaN"

text \<open>\<^verbatim>\<open>x ** n\<close> for a double \<open>x\<close> and a Python int \<open>n\<close>; \<^verbatim>\<open>x ** 0\<close> is 1 for every \<open>x\<close>.\<close>

fun fl_powi :: "fl \<Rightarrow> int \<Rightarrow> fl" where
  "fl_powi (Fin a) n =
     (if 0 \<le> n then Fin (a ^ nat n)
      else if a = 0 then PInf
      else Fin (1 / a ^ nat (- n)))"
| "fl_powi PInf n = (if n = 0 then Fin 1 else if 0 < n then PInf else Fin 0)"
| "fl_powi NInf n =
     (if n = 0 then Fin 1
      else if n < 0 then Fin 0
      else if even n then PInf else NInf)"
| "fl_powi NaN n = (if n = 0 then Fin 1 else NaN)"

text \<open>\<^verbatim>\<open>np.sqrt\<close>: NaN (with a warning, no exception) below zero.\<close>

fun fl_sqrt :: "fl \<Rightarrow> fl" where
  "fl_sqrt (Fin a) = (if a < 0 then NaN else Fin (sqrt a))"
| "fl_sqrt PInf = PInf"
| "fl_sqrt NInf = NaN"
| "fl_sqrt NaN = NaN"

fun fl_le :: "fl \<Rightarrow> fl \<Rightarrow> bool" where
  "fl_le (Fin a) (Fin b) = (a \<le> b)"
| "fl_le (Fin a) PInf = True"
| "fl_le (Fin a) NInf = False"
| "fl_le PInf (Fin b) = False"
| "fl_le PInf PInf = True"
| "fl_le PInf NInf = False"
| "fl_le NInf (Fin b) = True"
| "fl_le NInf PInf = True"
| "fl_le NInf NInf = True"
| "fl_le NaN y = False"
| "fl_le x NaN = False"

text \<open>\<^verbatim>\<open>np.maximum\<close> and \<^verbatim>\<open>np.minimum\<close> hand a NaN operand on.\<close>

definition np_maximum :: "fl \<Rightarrow> fl \<Rightarrow> fl" where
  "np_maximum x y = (if x = NaN \<or> y = NaN then NaN else if fl_le x y then y else x)"

definition np_minimum :: "fl \<Rightarrow> fl \<Rightarrow> fl" where
  "np_minimum x y = (if x = NaN \<or> y = NaN then NaN else if fl_le x y then x else y)"

primrec fl_sum :: "fl list \<Rightarrow> fl" where
  "fl_sum [] = Fin 0"
| "fl_sum (x # xs) = fl_add x (fl_sum xs)"

primrec fl_prod :: "fl list \<Rightarrow> fl" where
  "fl_prod [] = Fin 1"
| "fl_prod (x # xs) = fl_mul x (fl_prod xs)"

text \<open>
  Python's \<^verbatim>\<open>1 / n\<close> on two ints raises \<^verbatim>\<open>ZeroDivisionError\<close> when \<open>n\<close> is 0, and
  gives a float otherwise.
\<close>

definition py_truediv :: "int \<Rightarrow> int \<Rightarrow> pyerror + fl" where
  "py_truediv a b =
     (if b = 0 then Inl ZeroDivisionError else Inr (Fin (real_of_int a / real_of_int b)))"

text \<open>
  The initial capital is whatever the caller passes: a Python int (the default, 100000),
  a float, or an object that a float cannot multiply, such as a \<^verbatim>\<open>Decimal\<close>. An int
  times a float is first converted to a float, which raises \<^verbatim>\<open>OverflowError\<close> when
  the int rounds to \<open>2\<^sup>1\<^sup>0\<^sup>2\<^sup>4\<close> or beyond, that is from \<open>2\<^sup>1\<^sup>0\<^sup>2\<^sup>4 - 2\<^sup>9\<^sup>7\<^sup>0\<close> on; a
  \<^verbatim>\<open>Decimal\<close> times a float raises \<^verbatim>\<open>TypeError\<close>.
\<close>

datatype pyvalue = PyInt int | PyFloat fl | PyOther

definition int_to_float :: "int \<Rightarrow> pyerror + fl" where
  "int_to_float n =
     (if \<bar>n\<bar> < 2 ^ 1024 - 2 ^ 970 then Inr (Fin (real_of_int n)) else Inl OverflowError)"

fun py_mul_float :: "pyvalue \<Rightarrow> fl \<Rightarrow> pyerror + fl" where
  "py_mul_float (PyFloat x) w = Inr (fl_mul x w)"
| "py_mul_float (PyInt n) w =
     (case int_to_float n of Inl e \<Rightarrow> Inl e | Inr x \<Rightarrow> Inr (fl_mul x w))"
| "py_mul_float PyOther w = Inl TypeError"

text \<open>The values that a float can multiply.\<close>

fun capital_ok :: "pyvalue \<Rightarrow> bool" where
  "capital_ok (PyFloat x) = True"
| "capital_ok (PyInt n) = (\<bar>n\<bar> < 2 ^ 1024 - 2 ^ 970)"
| "capital_ok PyOther = False"

section \<open>Tables and series\<close>

text \<open>
  A DataFrame of prices is its column count (\<^verbatim>\<open>shape[1]\<close>, which a table with no rows
  still has) and its rows, oldest first, one cell per ticker; a missing price is NaN.
  A Series is the list of its values. The date labels are not modelled: no operation of
  the two calculators reads them.
\<close>

record dataframe =
  df_cols :: nat
  df_rows :: "fl list list"

type_synonym series = "fl list"

definition df_wf :: "dataframe \<Rightarrow> bool" where
  "df_wf d = list_all (\<lambda>r. length r = df_cols d) (df_rows d)"

definition no_missing :: "dataframe \<Rightarrow> bool" where
  "no_missing d = list_all (\<lambda>r. NaN \<notin> set r) (df_rows d)"

definition is_price :: "fl \<Rightarrow> bool" where
  "is_price c = (case c of Fin p \<Rightarrow> 0 < p | _ \<Rightarrow> False)"

definition positive_prices :: "dataframe \<Rightarrow> bool" where
  "positive_prices d = list_all (list_all is_price) (df_rows d)"

subsection \<open>\<^verbatim>\<open>DataFrame.pct_change\<close>, \<^verbatim>\<open>dropna\<close>, \<^verbatim>\<open>dot\<close>\<close>

text \<open>
  \<^verbatim>\<open>pct_change()\<close> is \<^verbatim>\<open>data / data.shift(1) - 1\<close>. Up to pandas 2 the default
  \<^verbatim>\<open>fill_method='pad'\<close> first fills each missing cell with the last price seen above it
  in its column; from pandas 3 nothing is filled. The source pins no version, so the
  model takes the library's default as the flag \<open>pad\<close>, and every result below holds for
  both values of it. (Among the padding releases, 2.1 and 2.2 differ from the earlier ones
  on a table with no rows only: there they raise \<^verbatim>\<open>ValueError\<close> while looking for the
  first price of a column. \<open>pad\<close> is the earlier behaviour, an empty result.)
\<close>

fun ffill_from :: "fl list \<Rightarrow> fl list list \<Rightarrow> fl list list" where
  "ffill_from prev [] = []"
| "ffill_from prev (r # rs) =
     (let f = map2 (\<lambda>p c. if c = NaN then p else c) prev r in f # ffill_from f rs)"

definition ffill :: "dataframe \<Rightarrow> dataframe" where
  "ffill d = d\<lparr>df_rows := ffill_from (replicate (df_cols d) NaN) (df_rows d)\<rparr>"

definition shift1 :: "dataframe \<Rightarrow> dataframe" where
  "shift1 d =
     d\<lparr>df_rows :=
         (case df_rows d of
            [] \<Rightarrow> []
          | _ # _ \<Rightarrow> replicate (df_cols d) NaN # butlast (df_rows d))\<rparr>"

definition pct_change :: "bool \<Rightarrow> dataframe \<Rightarrow> dataframe" where
  "pct_change pad d =
     (let data = (if pad then ffill d else d);
          shifted = shift1 data
      in data\<lparr>df_rows :=
           map2 (map2 (\<lambda>x s. fl_sub (fl_div x s) (Fin 1))) (df_rows data) (df_rows shifted)\<rparr>)"

text \<open>\<^verbatim>\<open>dropna()\<close> drops every row that holds a NaN; an infinity is not missing.\<close>

definition dropna :: "dataframe \<Rightarrow> dataframe" where
  "dropna d = d\<lparr>df_rows := filter (\<lambda>r. NaN \<notin> set r) (df_rows d)\<rparr>"

text \<open>
  \<^verbatim>\<open>DataFrame.dot(list)\<close> raises \<^verbatim>\<open>ValueError\<close> when the list is not as long as the
  table is wide, and otherwise gives one sum of products per row.
\<close>

definition df_dot :: "dataframe \<Rightarrow> fl list \<Rightarrow> pyerror + series" where
  "df_dot d ws =
     (if df_cols d \<noteq> length ws then Inl ValueError
      else Inr (map (\<lambda>r. fl_sum (map2 fl_mul r ws)) (df_rows d)))"

section \<open>\<^verbatim>\<open>calcular_rentabilidad\<close>\<close>

text \<open>
  Line 32 computes the amount per ticker and never reads it, but the product is
  evaluated: when it raises, the function ends there.
\<close>

definition calcular_rentabilidad ::
  "bool \<Rightarrow> dataframe \<Rightarrow> pyvalue \<Rightarrow> pyerror + series" where
  "calcular_rentabilidad pad precios_cierre capital_inicial =
     (let n_empresas = df_cols precios_cierre in
      case py_truediv 1 (int n_empresas) of
        Inl e \<Rightarrow> Inl e
      | Inr peso_cartera \<Rightarrow>
          (case py_mul_float capital_inicial peso_cartera of
             Inl e \<Rightarrow> Inl e
           | Inr inversion_por_empresa \<Rightarrow>
               (let rentabilidad_diaria = dropna (pct_change pad precios_cierre)
                in df_dot rentabilidad_diaria (replicate n_empresas peso_cartera))))"

section \<open>\<^verbatim>\<open>calcular_indicadores\<close>\<close>

text \<open>
  The reductions of a Series skip NaN (\<^verbatim>\<open>skipna=True\<close> is the default of each):
  \<^verbatim>\<open>mean\<close> of nothing is NaN, \<^verbatim>\<open>std\<close> divides by the count less one (\<^verbatim>\<open>ddof=1\<close>) and
  is NaN on fewer than two values, \<^verbatim>\<open>prod\<close> of nothing is 1, \<^verbatim>\<open>min\<close> of nothing is NaN.
  \<^verbatim>\<open>cumprod\<close> and \<^verbatim>\<open>cummax\<close> leave a NaN where the input has one and carry on with the
  values around it.
\<close>

definition s_dropna :: "series \<Rightarrow> series" where
  "s_dropna xs = filter (\<lambda>x. x \<noteq> NaN) xs"

definition s_mean :: "series \<Rightarrow> fl" where
  "s_mean xs =
     (let v = s_dropna xs in
      if v = [] then NaN else fl_div (fl_sum v) (Fin (real (length v))))"

definition s_std :: "series \<Rightarrow> fl" where
  "s_std xs =
     (let v = s_dropna xs; n = length v in
      if n \<le> 1 then NaN
      else
        (let avg = fl_div (fl_sum v) (Fin (real n));
             sqr = map (\<lambda>x. fl_mul (fl_sub avg x) (fl_sub avg x)) v
         in fl_sqrt (fl_div (fl_sum sqr) (Fin (real (n - 1))))))"

definition s_prod :: "series \<Rightarrow> fl" where
  "s_prod xs = fl_prod (s_dropna xs)"

fun cumprod_from :: "fl \<Rightarrow> series \<Rightarrow> series" where
  "cumprod_from acc [] = []"
| "cumprod_from acc (x # xs) =
     (if x = NaN then NaN # cumprod_from acc xs
      else fl_mul acc x # cumprod_from (fl_mul acc x) xs)"

definition s_cumprod :: "series \<Rightarrow> series" where
  "s_cumprod xs = cumprod_from (Fin 1) xs"

fun cummax_from :: "fl \<Rightarrow> series \<Rightarrow> series" where
  "cummax_from acc [] = []"
| "cummax_from acc (x # xs) =
     (if x = NaN then NaN # cummax_from acc xs
      else np_maximum acc x # cummax_from (np_maximum acc x) xs)"

definition s_cummax :: "series \<Rightarrow> series" where
  "s_cummax xs = cummax_from NInf xs"

definition s_min :: "series \<Rightarrow> fl" where
  "s_min xs =
     (case s_dropna xs of
        [] \<Rightarrow> NaN
      | v # vs \<Rightarrow> foldl np_minimum v vs)"

record indicadores =
  rentabilidad_anualizada :: fl
  volatilidad_anualizada :: fl
  ratio_de_sharpe :: fl
  retorno_acumulado :: fl
  maximo_drawdown :: fl

definition calcular_indicadores :: "series \<Rightarrow> int \<Rightarrow> fl \<Rightarrow> pyerror + indicadores" where
  "calcular_indicadores rentabilidad_cartera dias_trading rendimiento_sin_riesgo =
     (let rentabilidad_anualizada_v =
            fl_sub (fl_powi (fl_add (Fin 1) (s_mean rentabilidad_cartera)) dias_trading) (Fin 1);
          volatilidad_anualizada_v =
            fl_mul (s_std rentabilidad_cartera) (fl_sqrt (Fin (real_of_int dias_trading)));
          sharpe_ratio =
            fl_div (fl_sub rentabilidad_anualizada_v rendimiento_sin_riesgo)
              volatilidad_anualizada_v;
          retorno_acumulado_v =
            fl_sub (s_prod (map (\<lambda>x. fl_add x (Fin 1)) rentabilidad_cartera)) (Fin 1);
          wealth_index = s_cumprod (map (\<lambda>x. fl_add (Fin 1) x) rentabilidad_cartera);
          previous_peaks = s_cummax wealth_index;
          drawdown = map2 (\<lambda>w p. fl_div (fl_sub w p) p) wealth_index previous_peaks;
          max_drawdown = s_min drawdown
      in Inr \<lparr>rentabilidad_anualizada = rentabilidad_anualizada_v,
              volatilidad_anualizada = volatilidad_anualizada_v,
              ratio_de_sharpe = sharpe_ratio,
              retorno_acumulado = retorno_acumulado_v,
              maximo_drawdown = max_drawdown\<rparr>)"

section \<open>The formulas of the specification\<close>

text \<open>
  The specification states the results in its own words. These definitions follow those
  words, not the code, and the theorems below compare the two.

  The per-asset simple returns \<open>price[t] / price[t-1] - 1\<close>: one row per date after the
  first, one cell per ticker.
\<close>

fun asset_returns :: "fl list list \<Rightarrow> fl list list" where
  "asset_returns (p # q # rs) =
     map2 (\<lambda>x s. fl_sub (fl_div x s) (Fin 1)) q p # asset_returns (q # rs)"
| "asset_returns [p] = []"
| "asset_returns [] = []"

text \<open>The arithmetic mean and the sample standard deviation (denominator \<open>n - 1\<close>).\<close>

definition mean_r :: "real list \<Rightarrow> real" where
  "mean_r rs = sum_list rs / real (length rs)"

definition sample_std :: "real list \<Rightarrow> real" where
  "sample_std rs = sqrt ((\<Sum>x\<leftarrow>rs. (x - mean_r rs)\<^sup>2) / real (length rs - 1))"

text \<open>
  The wealth index \<open>W[t]\<close>, the running peak \<open>P[t]\<close> and the drawdown series
  \<open>D[t] = (W[t] - P[t]) / P[t]\<close> of a series of finite returns.
\<close>

fun cumprod_r :: "real \<Rightarrow> real list \<Rightarrow> real list" where
  "cumprod_r a [] = []"
| "cumprod_r a (x # xs) = (a * x) # cumprod_r (a * x) xs"

fun cummax_r :: "real \<Rightarrow> real list \<Rightarrow> real list" where
  "cummax_r m [] = []"
| "cummax_r m (x # xs) = max m x # cummax_r (max m x) xs"

definition wealth_r :: "real list \<Rightarrow> real list" where
  "wealth_r rs = cumprod_r 1 (map (\<lambda>x. 1 + x) rs)"

definition peaks_r :: "real list \<Rightarrow> real list" where
  "peaks_r ws = (case ws of [] \<Rightarrow> [] | w # ws' \<Rightarrow> w # cummax_r w ws')"

definition drawdown_r :: "real list \<Rightarrow> real list" where
  "drawdown_r rs = map2 (\<lambda>w p. (w - p) / p) (wealth_r rs) (peaks_r (wealth_r rs))"

section \<open>Example tables\<close>

text \<open>
  The end-to-end scenario of the specification (AAA: 100, 102, 101 and BBB: 50, 49, 50),
  a table of one ticker, a table of one trading day, a table in which no date has both
  prices, and a table with dates but no ticker.
\<close>

definition spec_table :: dataframe where
  "spec_table =
     \<lparr>df_cols = 2, df_rows = [[Fin 100, Fin 50], [Fin 102, Fin 49], [Fin 101, Fin 50]]\<rparr>"

definition one_ticker :: dataframe where
  "one_ticker = \<lparr>df_cols = 1, df_rows = [[Fin 100], [Fin 110], [Fin 99]]\<rparr>"

definition single_day :: dataframe where
  "single_day = \<lparr>df_cols = 1, df_rows = [[Fin 100]]\<rparr>"

definition gappy :: dataframe where
  "gappy = \<lparr>df_cols = 2, df_rows = [[Fin 100, NaN], [NaN, Fin 50], [Fin 101, NaN]]\<rparr>"

definition no_tickers :: dataframe where
  "no_tickers = \<lparr>df_cols = 0, df_rows = [[], []]\<rparr>"

section \<open>Arithmetic of the four kinds of value\<close>

lemma fl_sub_simps [simp]:
  "fl_sub (Fin a) (Fin b) = Fin (a - b)"
  "fl_sub NaN y = NaN"
  "fl_sub PInf (Fin b) = PInf"
  "fl_sub NInf (Fin b) = NInf"
  by (simp_all add: fl_sub_def)

lemma fl_div_NaN_right [simp]: "fl_div x NaN = NaN"
  by (cases x) simp_all

lemma fl_add_NaN_right [simp]: "fl_add x NaN = NaN"
  by (cases x) simp_all

lemma fl_mul_NaN_right [simp]: "fl_mul x NaN = NaN"
  by (cases x) simp_all

lemma fl_div_one [simp]: "fl_div x (Fin 1) = x"
  by (cases x) simp_all

lemma fl_add_zero_right [simp]: "fl_add x (Fin 0) = x"
  by (cases x) simp_all

lemma np_maximum_Fin [simp]: "np_maximum (Fin a) (Fin b) = Fin (max a b)"
  by (simp add: np_maximum_def max_def)

lemma np_minimum_Fin [simp]: "np_minimum (Fin a) (Fin b) = Fin (min a b)"
  by (simp add: np_minimum_def min_def)

text \<open>Scaling by a positive finite weight distributes over a sum, NaN and infinities included.\<close>

lemma fl_add_mul_distrib:
  "0 < w \<Longrightarrow> fl_mul (fl_add a b) (Fin w) = fl_add (fl_mul a (Fin w)) (fl_mul b (Fin w))"
  by (cases a; cases b) (simp_all add: signed_inf_def distrib_right)

lemma fl_sum_scaled:
  "0 < w \<Longrightarrow> fl_sum (map (\<lambda>x. fl_mul x (Fin w)) r) = fl_mul (fl_sum r) (Fin w)"
  by (induction r) (simp_all add: fl_add_mul_distrib)

lemma fl_mul_inverse_div:
  "0 < m \<Longrightarrow> fl_mul s (Fin (1 / m)) = fl_div s (Fin m)"
  by (cases s) (simp_all add: signed_inf_def)

text \<open>Whatever is divided by zero, the quotient is not a finite number.\<close>

lemma fl_div_zero: "fl_div y (Fin 0) \<in> {PInf, NInf, NaN}"
  by (cases y) (simp_all add: signed_inf_def)

lemma fl_powi_Fin:
  "fl_powi (Fin a) n = (if n < 0 \<and> a = 0 then PInf else Fin (power_int a n))"
  by (simp add: power_int_def field_simps)

section \<open>The return calculator\<close>

subsection \<open>Forward fill\<close>

lemma ffill_from_id:
  "list_all (\<lambda>r. length r = n) rows \<Longrightarrow> list_all (\<lambda>r. NaN \<notin> set r) rows \<Longrightarrow> length prev = n
   \<Longrightarrow> ffill_from prev rows = rows"
proof (induction rows arbitrary: prev)
  case Nil
  then show ?case by simp
next
  case (Cons r rows)
  have "map2 (\<lambda>p c. if c = NaN then p else c) prev r = r"
    using Cons.prems by (intro nth_equalityI) (auto simp: in_set_conv_nth)
  then show ?case using Cons by simp
qed

lemma ffill_from_length:
  "list_all (\<lambda>r. length r = n) rows \<Longrightarrow> length prev = n
   \<Longrightarrow> list_all (\<lambda>r. length r = n) (ffill_from prev rows)"
  by (induction rows arbitrary: prev) (simp_all add: Let_def)

lemma ffill_wf: "df_wf d \<Longrightarrow> df_wf (ffill d)"
  by (simp add: df_wf_def ffill_def ffill_from_length)

lemma ffill_cols [simp]: "df_cols (ffill d) = df_cols d"
  by (simp add: ffill_def)

lemma ffill_no_missing: "df_wf d \<Longrightarrow> no_missing d \<Longrightarrow> ffill d = d"
  by (simp add: df_wf_def no_missing_def ffill_def ffill_from_id)

subsection \<open>What survives \<^verbatim>\<open>pct_change().dropna()\<close>\<close>

lemma map2_butlast_asset_returns:
  "map2 (map2 (\<lambda>x s. fl_sub (fl_div x s) (Fin 1))) rest (butlast (r0 # rest))
   = asset_returns (r0 # rest)"
  by (induction rest arbitrary: r0) simp_all

text \<open>The first date has nothing before it: with a ticker in the table, its row holds a NaN.\<close>

lemma first_row_has_NaN:
  "length r = n \<Longrightarrow> 0 < n
   \<Longrightarrow> NaN \<in> set (map2 (\<lambda>x s. fl_sub (fl_div x s) (Fin 1)) r (replicate n NaN))"
  by (cases r; cases n) simp_all

lemma dropna_pct_rows:
  assumes "df_wf d" "0 < df_cols d"
  shows "filter (\<lambda>r. NaN \<notin> set r)
           (map2 (map2 (\<lambda>x s. fl_sub (fl_div x s) (Fin 1))) (df_rows d) (df_rows (shift1 d)))
         = filter (\<lambda>r. NaN \<notin> set r) (asset_returns (df_rows d))"
proof (cases "df_rows d")
  case Nil
  then show ?thesis by (simp add: shift1_def)
next
  case (Cons r0 rest)
  have len: "length r0 = df_cols d" using assms(1) Cons by (simp add: df_wf_def)
  have "NaN \<in> set (map2 (\<lambda>x s. fl_sub (fl_div x s) (Fin 1)) r0 (replicate (df_cols d) NaN))"
    using first_row_has_NaN [OF len assms(2)] .
  then show ?thesis
    using Cons map2_butlast_asset_returns [of rest r0] by (simp add: shift1_def)
qed

lemma py_truediv_pos: "0 < n \<Longrightarrow> py_truediv 1 (int n) = Inr (Fin (1 / real n))"
  by (simp add: py_truediv_def)

text \<open>
  With a ticker in the table and a capital that a float can multiply the function
  returns: one weighted sum for each return row that holds no NaN.
\<close>

lemma py_mul_float_ok: "capital_ok c \<Longrightarrow> \<exists>v. py_mul_float c w = Inr v"
  by (cases c) (simp_all add: int_to_float_def)

lemma calcular_rentabilidad_rows:
  assumes "df_wf t" "0 < df_cols t" "capital_ok c"
  shows "calcular_rentabilidad pad t c =
           Inr (map (\<lambda>r. fl_sum (map2 fl_mul r
                                   (replicate (df_cols t) (Fin (1 / real (df_cols t))))))
                  (filter (\<lambda>r. NaN \<notin> set r)
                     (asset_returns (df_rows (if pad then ffill t else t)))))"
proof -
  let ?data = "if pad then ffill t else t"
  have wf: "df_wf ?data" and cols: "df_cols ?data = df_cols t"
    using assms(1) by (simp_all add: ffill_wf)
  have "0 < df_cols ?data" using assms(2) cols by simp
  moreover obtain v where "py_mul_float c (Fin (1 / real (df_cols t))) = Inr v"
    using py_mul_float_ok [OF assms(3)] by blast
  ultimately show ?thesis
    using dropna_pct_rows [OF wf] assms(2) cols
    by (simp add: calcular_rentabilidad_def py_truediv_pos Let_def dropna_def pct_change_def
        df_dot_def)
qed

lemma asset_returns_length: "length (asset_returns rows) = length rows - 1"
  by (induction rows rule: asset_returns.induct) simp_all

lemma asset_returns_wf:
  "list_all (\<lambda>r. length r = n) rows \<Longrightarrow> list_all (\<lambda>r. length r = n) (asset_returns rows)"
  by (induction rows rule: asset_returns.induct) simp_all

subsection \<open>Equal weights\<close>

lemma map2_replicate_right:
  "length r = n \<Longrightarrow> map2 f r (replicate n w) = map (\<lambda>x. f x w) r"
  by (induction r arbitrary: n) auto

lemma dot_uniform_is_mean:
  assumes "length r = n" "0 < n"
  shows "fl_sum (map2 fl_mul r (replicate n (Fin (1 / real n))))
         = fl_div (fl_sum r) (Fin (real n))"
proof -
  have "fl_sum (map2 fl_mul r (replicate n (Fin (1 / real n))))
        = fl_sum (map (\<lambda>x. fl_mul x (Fin (1 / real n))) r)"
    using assms(1) by (simp only: map2_replicate_right)
  also have "\<dots> = fl_mul (fl_sum r) (Fin (1 / real n))"
    using assms(2) by (simp only: fl_sum_scaled zero_less_divide_1_iff of_nat_0_less_iff)
  also have "\<dots> = fl_div (fl_sum r) (Fin (real n))"
    using assms(2) by (simp only: fl_mul_inverse_div of_nat_0_less_iff)
  finally show ?thesis .
qed

lemma concat_singleton_rows:
  "list_all (\<lambda>r. length r = Suc 0) rows \<Longrightarrow> map fl_sum rows = concat rows"
proof (induction rows)
  case Nil
  then show ?case by simp
next
  case (Cons r rows)
  then obtain x where "r = [x]" by (cases r) auto
  then show ?case using Cons by simp
qed

text \<open>
  C2. On a table with at least one ticker and no missing price, the portfolio return at
  each surviving date (each return row without a NaN) is the sum of the per-asset simple
  returns \<open>price[t] / price[t-1] - 1\<close> of that date divided by the number of tickers; with
  one ticker the series is that ticker's own return column. This is so for every float
  capital and every int capital a float can hold, the default among them.
\<close>

theorem portfolio_return_is_mean:
  assumes "df_wf t" "1 \<le> df_cols t" "no_missing t" "capital_ok c"
  shows "calcular_rentabilidad pad t c =
           Inr (map (\<lambda>r. fl_div (fl_sum r) (Fin (real (df_cols t))))
                  (filter (\<lambda>r. NaN \<notin> set r) (asset_returns (df_rows t))))
         \<and> (df_cols t = 1 \<longrightarrow>
              calcular_rentabilidad pad t c =
                Inr (concat (filter (\<lambda>r. NaN \<notin> set r) (asset_returns (df_rows t)))))"
proof -
  let ?kept = "filter (\<lambda>r. NaN \<notin> set r) (asset_returns (df_rows t))"
  have data: "(if pad then ffill t else t) = t"
    using assms by (simp add: ffill_no_missing)
  have len: "list_all (\<lambda>r. length r = df_cols t) ?kept"
    using asset_returns_wf [of "df_cols t" "df_rows t"] assms(1)
    by (simp add: df_wf_def list_all_iff)
  have "map (\<lambda>r. fl_sum (map2 fl_mul r (replicate (df_cols t) (Fin (1 / real (df_cols t)))))) ?kept
        = map (\<lambda>r. fl_div (fl_sum r) (Fin (real (df_cols t)))) ?kept"
    using len assms(2) by (intro map_cong) (auto simp: list_all_iff dot_uniform_is_mean)
  then have main: "calcular_rentabilidad pad t c =
      Inr (map (\<lambda>r. fl_div (fl_sum r) (Fin (real (df_cols t)))) ?kept)"
    using calcular_rentabilidad_rows [of t c pad] assms(1,2,4) data by simp
  moreover have "map (\<lambda>r. fl_div (fl_sum r) (Fin (real (df_cols t)))) ?kept = concat ?kept"
    if "df_cols t = 1"
    using len that concat_singleton_rows [of ?kept] by simp
  ultimately show ?thesis by simp
qed

text \<open>
  The scenario of the specification gives the returns 0 and 53/9996 (0.0053 to four
  decimals); the one-ticker table gives that ticker's returns, +10% and -10%.
\<close>

theorem portfolio_return_is_mean_witness:
  "calcular_rentabilidad False spec_table (PyInt 100000) = Inr [Fin 0, Fin (53 / 9996)]
   \<and> calcular_rentabilidad True one_ticker (PyFloat (Fin 100000))
       = Inr [Fin (1 / 10), Fin (- (1 / 10))]"
proof -
  have c: "capital_ok (PyInt 100000)" "capital_ok (PyFloat (Fin 100000))" by simp_all
  have a: "df_wf spec_table" "1 \<le> df_cols spec_table" "no_missing spec_table"
    by (simp_all add: spec_table_def df_wf_def no_missing_def)
  have b: "df_wf one_ticker" "1 \<le> df_cols one_ticker" "no_missing one_ticker"
    "df_cols one_ticker = 1"
    by (simp_all add: one_ticker_def df_wf_def no_missing_def)
  show ?thesis
    using portfolio_return_is_mean [OF a c(1), of False]
      portfolio_return_is_mean [OF b(1,2,3) c(2), of True] b(4)
    by (simp add: spec_table_def one_ticker_def)
qed

subsection \<open>The number of returns\<close>

lemma is_price_FinD: "is_price c \<Longrightarrow> \<exists>p. c = Fin p \<and> 0 < p"
  by (cases c) (simp_all add: is_price_def)

lemma pct_row_prices:
  "list_all is_price p \<Longrightarrow> list_all is_price q
   \<Longrightarrow> NaN \<notin> set (map2 (\<lambda>x s. fl_sub (fl_div x s) (Fin 1)) q p)"
proof (induction q arbitrary: p)
  case Nil
  then show ?case by simp
next
  case (Cons y ys)
  show ?case
  proof (cases p)
    case Nil
    then show ?thesis by simp
  next
    case (Cons x xs)
    obtain a b where "x = Fin a" "0 < a" "y = Fin b" "0 < b"
      using Cons.prems Cons by (auto dest!: is_price_FinD)
    then show ?thesis using Cons.IH [of xs] Cons.prems Cons by simp
  qed
qed

lemma asset_returns_prices_complete:
  "list_all (list_all is_price) rows \<Longrightarrow> list_all (\<lambda>r. NaN \<notin> set r) (asset_returns rows)"
proof (induction rows rule: asset_returns.induct)
  case (1 p q rs)
  then show ?case using pct_row_prices [of p q] by simp
qed simp_all

lemma prices_no_missing: "positive_prices t \<Longrightarrow> no_missing t"
  by (auto simp: positive_prices_def no_missing_def list_all_iff is_price_def split: fl.splits)

text \<open>
  C3. A price table of \<open>N \<ge> 2\<close> dates and \<open>M \<ge> 1\<close> tickers with no missing value (every
  cell a price, a positive number, as the data model has it) gives exactly \<open>N - 1\<close>
  returns, for every float capital and every int capital a float can hold.
\<close>

theorem return_series_length:
  assumes "df_wf t" "1 \<le> df_cols t" "2 \<le> length (df_rows t)" "positive_prices t"
    "capital_ok c"
  shows "\<exists>rs. calcular_rentabilidad pad t c = Inr rs \<and> length rs = length (df_rows t) - 1"
proof -
  have data: "(if pad then ffill t else t) = t"
    using assms by (simp add: ffill_no_missing prices_no_missing)
  have "filter (\<lambda>r. NaN \<notin> set r) (asset_returns (df_rows t)) = asset_returns (df_rows t)"
    using asset_returns_prices_complete [of "df_rows t"] assms(4)
    by (simp add: positive_prices_def list_all_iff)
  then show ?thesis
    using calcular_rentabilidad_rows [of t c pad] assms(1,2,5) data
    by (simp add: asset_returns_length)
qed

theorem return_series_length_witness:
  "\<exists>rs. calcular_rentabilidad True spec_table (PyInt 100000) = Inr rs \<and> length rs = 2"
proof -
  have c: "capital_ok (PyInt 100000)" by simp
  have a: "df_wf spec_table" "1 \<le> df_cols spec_table" "2 \<le> length (df_rows spec_table)"
    "positive_prices spec_table"
    by (simp_all add: spec_table_def df_wf_def positive_prices_def is_price_def)
  show ?thesis
    using return_series_length [OF a c, of True]
    by (simp add: spec_table_def numeral_2_eq_2)
qed

subsection \<open>Fewer than two complete rows\<close>

lemma pct_row_NaN:
  "length p = length q \<Longrightarrow> NaN \<in> set p \<or> NaN \<in> set q
   \<Longrightarrow> NaN \<in> set (map2 (\<lambda>x s. fl_sub (fl_div x s) (Fin 1)) q p)"
proof (induction p q rule: list_induct2)
  case Nil
  then show ?case by simp
next
  case (Cons x xs y ys)
  then show ?case by (cases "x = NaN \<or> y = NaN") auto
qed

lemma few_complete_rows_no_returns:
  "list_all (\<lambda>r. length r = n) rows \<Longrightarrow> length (filter (\<lambda>r. NaN \<notin> set r) rows) \<le> 1
   \<Longrightarrow> filter (\<lambda>r. NaN \<notin> set r) (asset_returns rows) = []"
proof (induction rows rule: asset_returns.induct)
  case (1 p q rs)
  have "NaN \<in> set p \<or> NaN \<in> set q" using "1.prems"(2) by (auto split: if_splits)
  moreover have "length p = length q" using "1.prems"(1) by simp
  ultimately have "NaN \<in> set (map2 (\<lambda>x s. fl_sub (fl_div x s) (Fin 1)) q p)"
    by (rule pct_row_NaN [rotated])
  moreover have "filter (\<lambda>r. NaN \<notin> set r) (asset_returns (q # rs)) = []"
    using 1 by (auto split: if_splits)
  ultimately show ?case by simp
qed simp_all

text \<open>
  C4 as the specification states it fails: on a table of one trading day the function
  raises nothing and returns the empty series, under either default of the library.
\<close>

theorem degenerate_input_counterexample:
  "calcular_rentabilidad False single_day (PyInt 100000) = Inr []
   \<and> calcular_rentabilidad True single_day (PyInt 100000) = Inr []
   \<and> \<not> isl (calcular_rentabilidad False single_day (PyInt 100000))"
  by (simp add: single_day_def calcular_rentabilidad_def py_truediv_def int_to_float_def
      pct_change_def shift1_def dropna_def df_dot_def Let_def ffill_def)

text \<open>
  C4, amended. On a table with at least one ticker and at least one date whose data (the
  table itself, or the forward-filled table where the library pads) has fewer than two
  rows without a missing price, the function raises nothing and returns the empty series,
  for every float capital and every int capital a float can hold. (A table with no date
  at all is left out: what \<^verbatim>\<open>pct_change\<close> does there depends on the pandas release.)
\<close>

theorem degenerate_input_returns_empty:
  assumes "df_wf t" "1 \<le> df_cols t" "df_rows t \<noteq> []"
    "length (filter (\<lambda>r. NaN \<notin> set r) (df_rows (if pad then ffill t else t))) \<le> 1"
    "capital_ok c"
  shows "calcular_rentabilidad pad t c = Inr []"
proof -
  have "df_wf (if pad then ffill t else t)" using assms(1) by (simp add: ffill_wf)
  then have "filter (\<lambda>r. NaN \<notin> set r)
               (asset_returns (df_rows (if pad then ffill t else t))) = []"
    using assms(4) unfolding df_wf_def by (rule few_complete_rows_no_returns)
  then show ?thesis
    using calcular_rentabilidad_rows [of t c pad] assms(1,2,5) by simp
qed

theorem degenerate_input_returns_empty_witness:
  "calcular_rentabilidad True single_day (PyInt 100000) = Inr []
   \<and> calcular_rentabilidad False gappy (PyInt 100000) = Inr []"
proof -
  have c: "capital_ok (PyInt 100000)" by simp
  have a: "df_wf single_day" "1 \<le> df_cols single_day" "df_rows single_day \<noteq> []"
    "length (filter (\<lambda>r. NaN \<notin> set r)
       (df_rows (if True then ffill single_day else single_day))) \<le> 1"
    by (simp_all add: single_day_def df_wf_def ffill_def)
  have b: "df_wf gappy" "1 \<le> df_cols gappy" "df_rows gappy \<noteq> []"
    "length (filter (\<lambda>r. NaN \<notin> set r) (df_rows (if False then ffill gappy else gappy))) \<le> 1"
    by (simp_all add: gappy_def df_wf_def)
  show ?thesis
    using degenerate_input_returns_empty [OF a c]
      degenerate_input_returns_empty [OF b c]
    by simp
qed

subsection \<open>No ticker\<close>

text \<open>
  C5 as the specification states it fails: on a table with no ticker nothing checks the
  shape before the division. The division \<^verbatim>\<open>1 / n_empresas\<close> is attempted and raises
  \<^verbatim>\<open>ZeroDivisionError\<close>; the failure is not the one of a shape check (\<^verbatim>\<open>ValueError\<close>).
\<close>

theorem zero_columns_counterexample:
  "py_truediv 1 (int (df_cols no_tickers)) = Inl ZeroDivisionError
   \<and> calcular_rentabilidad False no_tickers (PyInt 100000) = Inl ZeroDivisionError
   \<and> calcular_rentabilidad False no_tickers (PyInt 100000) \<noteq> Inl ValueError"
  by (simp add: no_tickers_def calcular_rentabilidad_def py_truediv_def)

text \<open>
  C5, amended. On every table with no ticker the function fails, with the
  \<^verbatim>\<open>ZeroDivisionError\<close> that the equal-weight division itself raises, and returns no
  series.
\<close>

theorem zero_columns_zero_division:
  assumes "df_cols t = 0"
  shows "py_truediv 1 (int (df_cols t)) = Inl ZeroDivisionError
         \<and> calcular_rentabilidad pad t c = Inl ZeroDivisionError"
  using assms by (simp add: calcular_rentabilidad_def py_truediv_def)

theorem zero_columns_zero_division_witness:
  "calcular_rentabilidad True no_tickers (PyInt 100000) = Inl ZeroDivisionError"
proof -
  have "df_cols no_tickers = 0" by (simp add: no_tickers_def)
  from zero_columns_zero_division [OF this, of True "PyInt 100000"] show ?thesis by simp
qed

subsection \<open>The initial capital\<close>

text \<open>
  C10 as the specification states it fails: with the default capital the scenario table
  gives its two returns, and with the int \<open>10\<^sup>4\<^sup>0\<^sup>0\<close> as capital the product of line 32
  raises \<^verbatim>\<open>OverflowError\<close> and nothing is returned. A \<^verbatim>\<open>Decimal\<close> capital raises
  \<^verbatim>\<open>TypeError\<close> at the same line.
\<close>

theorem capital_inicial_counterexample:
  "calcular_rentabilidad False spec_table (PyInt 100000) = Inr [Fin 0, Fin (53 / 9996)]
   \<and> calcular_rentabilidad False spec_table (PyInt (10 ^ 400)) = Inl OverflowError
   \<and> calcular_rentabilidad False spec_table PyOther = Inl TypeError"
  by (simp add: spec_table_def calcular_rentabilidad_def py_truediv_def int_to_float_def
      pct_change_def shift1_def dropna_def df_dot_def Let_def fl_sub_def eval_nat_numeral)

text \<open>
  C10, amended. On every table, any two capitals that a float can multiply (a float,
  or an int below \<open>2\<^sup>1\<^sup>0\<^sup>2\<^sup>4 - 2\<^sup>9\<^sup>7\<^sup>0\<close> in absolute value) give the same result: among these
  the capital has no effect on what the function returns.
\<close>

theorem capital_inicial_no_effect:
  assumes "capital_ok c1" "capital_ok c2"
  shows "calcular_rentabilidad pad t c1 = calcular_rentabilidad pad t c2"
proof (cases "py_truediv 1 (int (df_cols t))")
  case (Inl e)
  then show ?thesis by (simp add: calcular_rentabilidad_def)
next
  case (Inr w)
  obtain v1 v2 where "py_mul_float c1 w = Inr v1" "py_mul_float c2 w = Inr v2"
    using assms py_mul_float_ok by blast
  with Inr show ?thesis by (simp add: calcular_rentabilidad_def Let_def)
qed

theorem capital_inicial_no_effect_witness:
  "calcular_rentabilidad False spec_table (PyInt 100000)
   = calcular_rentabilidad False spec_table (PyFloat (Fin (1 / 2)))"
proof -
  have "capital_ok (PyInt 100000)" "capital_ok (PyFloat (Fin (1 / 2)))" by simp_all
  from capital_inicial_no_effect [OF this] show ?thesis .
qed

section \<open>The indicator calculator\<close>

subsection \<open>Series of finite returns\<close>

lemma s_dropna_Fin [simp]: "s_dropna (map Fin rs) = map Fin rs"
  by (induction rs) (simp_all add: s_dropna_def)

lemma fl_sum_Fin [simp]: "fl_sum (map Fin rs) = Fin (sum_list rs)"
  by (induction rs) simp_all

lemma fl_prod_Fin [simp]: "fl_prod (map Fin rs) = Fin (prod_list rs)"
  by (induction rs) simp_all

lemma replicate_Fin: "replicate n (Fin c) = map Fin (replicate n c)"
  by simp

lemma s_mean_Fin: "rs \<noteq> [] \<Longrightarrow> s_mean (map Fin rs) = Fin (mean_r rs)"
  by (simp add: s_mean_def mean_r_def)

text \<open>
  \<^verbatim>\<open>std\<close> squares the deviations from the mean as \<open>(avg - x) * (avg - x)\<close> and divides
  by the count less one: the sample standard deviation.
\<close>

lemma s_std_Fin:
  assumes "2 \<le> length rs"
  shows "s_std (map Fin rs) =
           Fin (sqrt (sum_list (map (\<lambda>x. (sum_list rs / real (length rs) - x)
                                         * (sum_list rs / real (length rs) - x)) rs)
                      / real (length rs - 1)))"
proof -
  let ?avg = "sum_list rs / real (length rs)"
  let ?sq = "map (\<lambda>x. (?avg - x) * (?avg - x)) rs"
  have ne: "rs \<noteq> []" using assms by auto
  have avg: "fl_div (fl_sum (map Fin rs)) (Fin (real (length rs))) = Fin ?avg"
    using ne by simp
  have "map (\<lambda>x. fl_mul (fl_sub (Fin ?avg) x) (fl_sub (Fin ?avg) x)) (map Fin rs) = map Fin ?sq"
    by simp
  then have sq:
    "fl_sum (map (\<lambda>x. fl_mul (fl_sub (Fin ?avg) x) (fl_sub (Fin ?avg) x)) (map Fin rs))
     = Fin (sum_list ?sq)"
    by (simp only: fl_sum_Fin)
  have nonneg: "0 \<le> sum_list ?sq" by (rule sum_list_nonneg) auto
  have "fl_sqrt (fl_div (Fin (sum_list ?sq)) (Fin (real (length rs - 1))))
        = Fin (sqrt (sum_list ?sq / real (length rs - 1)))"
    using assms nonneg by (simp add: not_less)
  then show ?thesis
    using assms unfolding s_std_def Let_def s_dropna_Fin length_map avg sq by simp
qed

lemma s_std_sample_std:
  assumes "2 \<le> length rs"
  shows "s_std (map Fin rs) = Fin (sample_std rs)"
proof -
  have "(\<lambda>x. (sum_list rs / real (length rs) - x) * (sum_list rs / real (length rs) - x))
        = (\<lambda>x. (x - mean_r rs)\<^sup>2)"
    by (auto simp: mean_r_def power2_eq_square algebra_simps)
  then show ?thesis
    using s_std_Fin [OF assms] by (simp add: sample_std_def)
qed

lemma mean_r_replicate: "0 < n \<Longrightarrow> mean_r (replicate n c) = c"
  by (simp add: mean_r_def sum_list_replicate)

lemma sample_std_replicate: "0 < n \<Longrightarrow> sample_std (replicate n c) = 0"
  by (simp add: sample_std_def mean_r_replicate sum_list_replicate)

subsection \<open>Annualized return\<close>

text \<open>
  C6. On a non-empty series of finite returns and every number of periods, the annualized
  return is \<open>(1 + mean) ^ periods - 1\<close>, from the arithmetic mean of the returns. (For a
  negative number of periods the power is the reciprocal, and infinite when \<open>1 + mean\<close>
  is zero.)
\<close>

theorem annualized_return_formula:
  assumes "rs \<noteq> []"
  shows "\<exists>r. calcular_indicadores (map Fin rs) dias rf = Inr r \<and>
           rentabilidad_anualizada r =
             (if dias < 0 \<and> 1 + mean_r rs = 0 then PInf
              else Fin (power_int (1 + mean_r rs) dias - 1))"
  using assms
  by (simp add: calcular_indicadores_def Let_def s_mean_Fin fl_powi_Fin del: fl_powi.simps)

text \<open>
  Returns of +100% and -50% over two periods: the mean is 1/4 and the annualized return
  \<open>(5/4)\<^sup>2 - 1 = 9/16\<close>, while the cumulative product gives a cumulative return of 0.
\<close>

theorem annualized_return_formula_witness:
  "\<exists>r. calcular_indicadores [Fin 1, Fin (- (1 / 2))] 2 (Fin (1 / 100)) = Inr r \<and>
     rentabilidad_anualizada r = Fin (9 / 16) \<and> retorno_acumulado r = Fin 0"
proof -
  have "[1, - (1 / 2)] \<noteq> ([] :: real list)" by simp
  from annualized_return_formula [OF this, of 2 "Fin (1 / 100)"] show ?thesis
    by (auto simp: calcular_indicadores_def Let_def s_prod_def s_dropna_def mean_r_def
        power2_eq_square)
qed

subsection \<open>Annualized volatility\<close>

text \<open>
  C9. On a series of at least two finite returns the annualized volatility is the sample
  standard deviation of the returns (denominator \<open>n - 1\<close>) times the square root of the
  number of periods.
\<close>

theorem annualized_volatility_formula:
  assumes "2 \<le> length rs" "0 \<le> dias"
  shows "\<exists>r. calcular_indicadores (map Fin rs) dias rf = Inr r \<and>
           volatilidad_anualizada r = Fin (sample_std rs * sqrt (real_of_int dias))"
  using assms by (simp add: calcular_indicadores_def Let_def s_std_sample_std)

text \<open>Returns of 0%, 1% and 2% over four periods: deviation 1%, volatility 2%.\<close>

theorem annualized_volatility_formula_witness:
  "\<exists>r. calcular_indicadores [Fin 0, Fin (1 / 100), Fin (2 / 100)] 4 (Fin (1 / 100)) = Inr r \<and>
     volatilidad_anualizada r = Fin (2 / 100)"
proof -
  have s: "sample_std [0, 1 / 100, 2 / 100] = 1 / 100"
    by (simp add: sample_std_def mean_r_def power2_eq_square real_sqrt_divide)
  have v: "sample_std [0, 1 / 100, 2 / 100] * sqrt (real_of_int 4) = 2 / 100"
    unfolding s by simp
  show ?thesis
    using annualized_volatility_formula [of "[0, 1 / 100, 2 / 100]" 4 "Fin (1 / 100)"]
    unfolding v by simp
qed

subsection \<open>Zero volatility\<close>

text \<open>
  C1 as the specification states it fails: on two equal returns the function raises
  nothing. It returns a record whose volatility is 0 and whose Sharpe ratio is the
  quotient by that zero, here minus infinity.
\<close>

theorem zero_volatility_counterexample:
  "calcular_indicadores [Fin 0, Fin 0] 252 (Fin (1 / 100)) =
     Inr \<lparr>rentabilidad_anualizada = Fin 0, volatilidad_anualizada = Fin 0,
          ratio_de_sharpe = NInf, retorno_acumulado = Fin 0, maximo_drawdown = Fin 0\<rparr>"
  by (simp add: calcular_indicadores_def Let_def s_mean_def s_std_def s_prod_def s_dropna_def
      s_cumprod_def s_cummax_def s_min_def np_maximum_def np_minimum_def signed_inf_def)

text \<open>
  C1, amended. On a series of two or more equal finite returns the function raises
  nothing: it returns a record whose Sharpe ratio is the quotient of the excess return
  by the volatility, as doubles divide. When the equal returns are zero and the number
  of periods is not negative, the volatility is 0 and the Sharpe ratio is the quotient
  of minus the risk-free rate by that zero: an infinity or NaN, never a finite number.
  (For equal returns other than zero nothing is said of the volatility: the rounding
  of doubles, which the model leaves out, can make it a tiny number above zero.)
\<close>

theorem equal_returns_no_failure:
  assumes "2 \<le> n"
  shows "\<exists>r. calcular_indicadores (replicate n (Fin c)) dias rf = Inr r \<and>
           ratio_de_sharpe r =
             fl_div (fl_sub (rentabilidad_anualizada r) rf) (volatilidad_anualizada r) \<and>
           (c = 0 \<and> 0 \<le> dias \<longrightarrow>
              volatilidad_anualizada r = Fin 0 \<and>
              ratio_de_sharpe r = fl_div (fl_sub (Fin 0) rf) (Fin 0) \<and>
              ratio_de_sharpe r \<in> {PInf, NInf, NaN})"
proof (cases "c = 0 \<and> 0 \<le> dias")
  case True
  have ne: "replicate n (0::real) \<noteq> []" using assms by auto
  have std: "s_std (replicate n (Fin 0)) = Fin 0"
    unfolding replicate_Fin using assms
    by (simp add: s_std_sample_std sample_std_replicate del: map_replicate)
  have m: "s_mean (replicate n (Fin 0)) = Fin 0"
    unfolding replicate_Fin using s_mean_Fin [OF ne] assms
    by (simp add: mean_r_replicate del: map_replicate)
  show ?thesis
    using True fl_div_zero [of "fl_sub (Fin 0) rf"]
    by (simp add: calcular_indicadores_def Let_def std m del: map_replicate)
next
  case False
  then show ?thesis
    by (auto simp: calcular_indicadores_def Let_def)
qed

text \<open>Three zero returns with the defaults: volatility 0, Sharpe ratio minus infinity.\<close>

theorem equal_returns_no_failure_witness:
  "\<exists>r. calcular_indicadores [Fin 0, Fin 0, Fin 0] 252 (Fin (1 / 100)) = Inr r \<and>
     volatilidad_anualizada r = Fin 0 \<and> ratio_de_sharpe r = NInf"
  using equal_returns_no_failure [of 3 0 252 "Fin (1 / 100)"]
  by (auto simp: eval_nat_numeral signed_inf_def)

subsection \<open>All-zero returns\<close>

text \<open>
  C8. On a non-empty series of zero returns the cumulative return is 0 and the annualized
  return is 0.
\<close>

theorem all_zero_returns:
  assumes "1 \<le> n"
  shows "\<exists>r. calcular_indicadores (replicate n (Fin 0)) dias rf = Inr r \<and>
           retorno_acumulado r = Fin 0 \<and> rentabilidad_anualizada r = Fin 0"
proof -
  have ne: "replicate n (0::real) \<noteq> []" using assms by auto
  have m: "s_mean (replicate n (Fin 0)) = Fin 0"
    unfolding replicate_Fin using s_mean_Fin [OF ne] assms
    by (simp add: mean_r_replicate del: map_replicate)
  have "map (\<lambda>x. fl_add x (Fin 1)) (replicate n (Fin 0)) = map Fin (replicate n 1)"
    by simp
  then have p: "s_prod (map (\<lambda>x. fl_add x (Fin 1)) (replicate n (Fin 0))) = Fin 1"
    by (simp add: s_prod_def del: map_replicate)
  show ?thesis
    by (simp add: calcular_indicadores_def Let_def m p del: map_replicate)
qed

theorem all_zero_returns_witness:
  "\<exists>r. calcular_indicadores [Fin 0, Fin 0, Fin 0] 252 (Fin (1 / 100)) = Inr r \<and>
     retorno_acumulado r = Fin 0 \<and> rentabilidad_anualizada r = Fin 0"
  using all_zero_returns [of 3 252 "Fin (1 / 100)"] by (simp add: eval_nat_numeral)

subsection \<open>Maximum drawdown\<close>

text \<open>On finite values the code's running product, running maximum and minimum are the real ones.\<close>

lemma cumprod_from_Fin: "cumprod_from (Fin a) (map Fin xs) = map Fin (cumprod_r a xs)"
  by (induction xs arbitrary: a) simp_all

lemma cummax_from_Fin: "cummax_from (Fin m) (map Fin xs) = map Fin (cummax_r m xs)"
  by (induction xs arbitrary: m) simp_all

lemma s_cummax_Fin: "s_cummax (map Fin (w # ws)) = map Fin (w # cummax_r w ws)"
  by (simp add: s_cummax_def np_maximum_def cummax_from_Fin)

lemma foldl_np_minimum_Fin: "foldl np_minimum (Fin d) (map Fin ds) = Fin (foldl min d ds)"
  by (induction ds arbitrary: d) simp_all

lemma foldl_min_Min: "foldl min d ds = Min (set (d # ds))"
proof (induction ds arbitrary: d)
  case Nil
  then show ?case by simp
next
  case (Cons x xs)
  have "Min (set (d # x # xs)) = Min (set (min d x # xs))"
    by (cases "xs = []") (auto simp: min.assoc)
  then show ?case using Cons [of "min d x"] by simp
qed

lemma s_min_Fin: "s_min (map Fin (d # ds)) = Fin (Min (set (d # ds)))"
proof -
  have "s_dropna (map Fin (d # ds)) = Fin d # map Fin ds"
    using s_dropna_Fin [of "d # ds"] by simp
  then show ?thesis
    by (simp only: s_min_def list.case foldl_np_minimum_Fin foldl_min_Min)
qed

lemma drawdown_Fin:
  "\<forall>p\<in>set ps. p \<noteq> 0 \<Longrightarrow>
   map2 (\<lambda>w p. fl_div (fl_sub w p) p) (map Fin ws) (map Fin ps)
   = map Fin (map2 (\<lambda>w p. (w - p) / p) ws ps)"
proof (induction ws arbitrary: ps)
  case Nil
  then show ?case by simp
next
  case (Cons w ws)
  then show ?case by (cases ps) simp_all
qed

lemma cumprod_r_length [simp]: "length (cumprod_r a xs) = length xs"
  by (induction xs arbitrary: a) simp_all

lemma cummax_r_length [simp]: "length (cummax_r m xs) = length xs"
  by (induction xs arbitrary: m) simp_all

lemma peaks_r_length [simp]: "length (peaks_r ws) = length ws"
  by (cases ws) (simp_all add: peaks_r_def)

lemma wealth_r_length [simp]: "length (wealth_r rs) = length rs"
  by (simp add: wealth_r_def)

lemma drawdown_r_length [simp]: "length (drawdown_r rs) = length rs"
  by (simp add: drawdown_r_def)

text \<open>Returns above -100% keep the wealth index positive.\<close>

lemma cumprod_r_pos:
  "0 < a \<Longrightarrow> \<forall>x\<in>set xs. 0 < x \<Longrightarrow> \<forall>w\<in>set (cumprod_r a xs). 0 < w"
proof (induction xs arbitrary: a)
  case Nil
  then show ?case by simp
next
  case (Cons x xs)
  have "0 < a * x" using Cons.prems by simp
  moreover have "\<forall>w\<in>set (cumprod_r (a * x) xs). 0 < w"
    using Cons.prems \<open>0 < a * x\<close> by (intro Cons.IH) auto
  ultimately show ?case by simp
qed

lemma wealth_r_pos: "\<forall>x\<in>set rs. - 1 < x \<Longrightarrow> \<forall>w\<in>set (wealth_r rs). 0 < w"
  unfolding wealth_r_def by (rule cumprod_r_pos) auto

text \<open>The running peak is positive and never below the wealth of its date.\<close>

lemma dominated_nonzero:
  "list_all2 (\<lambda>w p. 0 < p \<and> w \<le> p) ws ps \<Longrightarrow> \<forall>p\<in>set ps. p \<noteq> (0::real)"
  by (induction rule: list_all2_induct) auto

lemma cummax_r_dominates:
  "0 < m \<Longrightarrow> list_all2 (\<lambda>w p. 0 < p \<and> w \<le> p) ws (cummax_r m ws)"
  by (induction ws arbitrary: m) (simp_all add: less_max_iff_disj)

lemma peaks_r_dominates:
  assumes "\<forall>w\<in>set ws. 0 < w"
  shows "list_all2 (\<lambda>w p. 0 < p \<and> w \<le> p) ws (peaks_r ws)"
proof (cases ws)
  case Nil
  then show ?thesis by (simp add: peaks_r_def)
next
  case (Cons w ws')
  then have "0 < w" using assms by simp
  then show ?thesis using Cons cummax_r_dominates [of w ws'] by (simp add: peaks_r_def)
qed

lemma drawdown_r_nonpos:
  assumes "\<forall>x\<in>set rs. - 1 < x"
  shows "\<forall>d\<in>set (drawdown_r rs). d \<le> 0"
proof -
  have "list_all2 (\<lambda>w p. 0 < p \<and> w \<le> p) (wealth_r rs) (peaks_r (wealth_r rs))"
    using assms by (intro peaks_r_dominates wealth_r_pos)
  then show ?thesis
    unfolding drawdown_r_def
    by (auto simp: set_zip list_all2_conv_all_nth divide_le_0_iff)
qed

text \<open>When no return is negative the wealth index never falls, so it is its own peak.\<close>

lemma cummax_r_monotone_id:
  "0 < a \<Longrightarrow> m \<le> a \<Longrightarrow> \<forall>x\<in>set xs. 1 \<le> x
   \<Longrightarrow> cummax_r m (cumprod_r a xs) = cumprod_r a xs"
proof (induction xs arbitrary: a m)
  case Nil
  then show ?case by simp
next
  case (Cons x xs)
  have ax: "a \<le> a * x" using Cons.prems by simp
  then have "m \<le> a * x" using Cons.prems(2) by linarith
  then have mx: "max m (a * x) = a * x" by (simp add: max_absorb2)
  have "cummax_r (a * x) (cumprod_r (a * x) xs) = cumprod_r (a * x) xs"
    using Cons.prems ax by (intro Cons.IH) auto
  then show ?case using mx by simp
qed

lemma peaks_r_monotone:
  assumes "\<forall>x\<in>set rs. 0 \<le> x"
  shows "peaks_r (wealth_r rs) = wealth_r rs"
proof (cases rs)
  case Nil
  then show ?thesis by (simp add: peaks_r_def wealth_r_def)
next
  case (Cons x xs)
  have "cummax_r (1 + x) (cumprod_r (1 + x) (map (\<lambda>x. 1 + x) xs))
        = cumprod_r (1 + x) (map (\<lambda>x. 1 + x) xs)"
    using assms Cons by (intro cummax_r_monotone_id) auto
  then show ?thesis using Cons by (simp add: peaks_r_def wealth_r_def)
qed

lemma drawdown_r_zero:
  assumes "\<forall>x\<in>set rs. 0 \<le> x"
  shows "\<forall>d\<in>set (drawdown_r rs). d = 0"
  unfolding drawdown_r_def peaks_r_monotone [OF assms]
  by (auto simp: set_zip)

text \<open>The code's three series, and the field it reads off them.\<close>

lemma wealth_index_Fin:
  "s_cumprod (map (\<lambda>x. fl_add (Fin 1) x) (map Fin rs)) = map Fin (wealth_r rs)"
proof -
  have "map (\<lambda>x. fl_add (Fin 1) x) (map Fin rs) = map Fin (map (\<lambda>x. 1 + x) rs)"
    by simp
  then show ?thesis
    by (simp only: s_cumprod_def wealth_r_def cumprod_from_Fin)
qed

lemma previous_peaks_Fin: "s_cummax (map Fin ws) = map Fin (peaks_r ws)"
proof (cases ws)
  case Nil
  then show ?thesis by (simp add: s_cummax_def peaks_r_def)
next
  case (Cons w ws')
  then show ?thesis by (simp only: s_cummax_Fin peaks_r_def list.case)
qed

lemma max_drawdown_Fin:
  assumes "rs \<noteq> []" "\<forall>x\<in>set rs. - 1 < x"
  shows "\<exists>r. calcular_indicadores (map Fin rs) dias rf = Inr r \<and>
            maximo_drawdown r = Fin (Min (set (drawdown_r rs)))"
proof -
  have "list_all2 (\<lambda>w p. 0 < p \<and> w \<le> p) (wealth_r rs) (peaks_r (wealth_r rs))"
    using assms(2) by (intro peaks_r_dominates wealth_r_pos)
  then have "\<forall>p\<in>set (peaks_r (wealth_r rs)). p \<noteq> 0"
    by (rule dominated_nonzero)
  then have dd:
    "map2 (\<lambda>w p. fl_div (fl_sub w p) p) (map Fin (wealth_r rs)) (map Fin (peaks_r (wealth_r rs)))
     = map Fin (drawdown_r rs)"
    unfolding drawdown_r_def by (rule drawdown_Fin)
  obtain d ds where ds: "drawdown_r rs = d # ds"
    using assms(1) drawdown_r_length [of rs] by (cases "drawdown_r rs") auto
  have "s_min (map Fin (drawdown_r rs)) = Fin (Min (set (drawdown_r rs)))"
    unfolding ds by (rule s_min_Fin)
  then show ?thesis
    unfolding calcular_indicadores_def Let_def wealth_index_Fin previous_peaks_Fin dd
    by simp
qed

text \<open>
  C7. On a non-empty series of finite returns, each above -100%, the maximum drawdown is
  a number that is at most 0, and it is 0 when no return is negative.
\<close>

theorem max_drawdown_nonpositive:
  assumes "rs \<noteq> []" "\<forall>x\<in>set rs. - 1 < x"
  shows "\<exists>r d. calcular_indicadores (map Fin rs) dias rf = Inr r \<and>
            maximo_drawdown r = Fin d \<and> d \<le> 0 \<and> ((\<forall>x\<in>set rs. 0 \<le> x) \<longrightarrow> d = 0)"
proof -
  let ?d = "Min (set (drawdown_r rs))"
  have ne: "set (drawdown_r rs) \<noteq> {}"
    using assms(1) drawdown_r_length [of rs] by (cases "drawdown_r rs") auto
  then have mem: "?d \<in> set (drawdown_r rs)" by (intro Min_in) auto
  have "?d \<le> 0" using mem drawdown_r_nonpos [OF assms(2)] by blast
  moreover have "?d = 0" if "\<forall>x\<in>set rs. 0 \<le> x"
    using mem drawdown_r_zero [OF that] by blast
  ultimately show ?thesis
    using max_drawdown_Fin [OF assms, of dias rf] by auto
qed

text \<open>
  A gain of 10% and then no change: no drawdown. A gain of 10% and then a loss of 50%:
  a drawdown that is not positive (it is -50%).
\<close>

theorem max_drawdown_nonpositive_witness:
  "(\<exists>r. calcular_indicadores [Fin (1 / 10), Fin 0] 252 (Fin (1 / 100)) = Inr r \<and>
        maximo_drawdown r = Fin 0)
   \<and> (\<exists>r d. calcular_indicadores [Fin (1 / 10), Fin (- (1 / 2))] 252 (Fin (1 / 100)) = Inr r \<and>
        maximo_drawdown r = Fin d \<and> d \<le> 0)"
proof -
  have a: "[1 / 10, 0] \<noteq> ([] :: real list)" "\<forall>x\<in>set [1 / 10, 0 :: real]. - 1 < x"
    by simp_all
  have b: "[1 / 10, - (1 / 2)] \<noteq> ([] :: real list)"
    "\<forall>x\<in>set [1 / 10, - (1 / 2) :: real]. - 1 < x"
    by simp_all
  from max_drawdown_nonpositive [OF a, of 252 "Fin (1 / 100)"]
  have "\<exists>r. calcular_indicadores [Fin (1 / 10), Fin 0] 252 (Fin (1 / 100)) = Inr r \<and>
          maximo_drawdown r = Fin 0"
    by auto
  moreover from max_drawdown_nonpositive [OF b, of 252 "Fin (1 / 100)"]
  have "\<exists>r d. calcular_indicadores [Fin (1 / 10), Fin (- (1 / 2))] 252 (Fin (1 / 100)) = Inr r \<and>
          maximo_drawdown r = Fin d \<and> d \<le> 0"
    by auto
  ultimately show ?thesis by blast
qed

end
